theory Spec2Isabelle
  imports Complex_Main
begin

section \<open>fastai/conv\_learner.py: the network builder\<close>

text \<open>
  The module builds a classifier from a pretrained backbone and a new fully-connected head
  (class \<open>ConvnetBuilder\<close>) and wraps it in a learner that can train the head alone on
  cached backbone activations (class \<open>ConvLearner\<close>).

  Python objects have identity: the same module object sits in \<open>top_model\<close>, in
  \<open>fc_model\<close> and in \<open>model\<close>, and freezing it through one of them freezes it in all.
  Every module therefore carries the address (\<open>oid\<close>) it was allocated at, and every
  function that constructs modules takes the next free address and returns the one after
  its last allocation.
\<close>

subsection \<open>Modules\<close>

text \<open>
  The constructors are the module classes the file instantiates; \<open>Pretrained\<close> stands for
  any module of a backbone network (its name is all that is recorded of it).  Dropout
  probabilities are Python floats; the code only tests them for being zero, so they are reals
  here.
\<close>

datatype kind =
    BatchNorm1d nat
  | Dropout real
  | Linear nat nat
  | ReLU
  | Sigmoid
  | LogSoftmax
  | AdaptiveConcatPool2d
  | Flatten
  | Sequential
  | Pretrained string

datatype layer = Layer (oid: nat) (kind: kind) (children: "layer list")

text \<open>A constructor call \<open>nn.X(...)\<close>: a fresh object at the next free address.\<close>

definition new_module :: "kind \<Rightarrow> layer list \<Rightarrow> nat \<Rightarrow> layer \<times> nat" where
  "new_module k cs h = (Layer h k cs, Suc h)"

datatype error = IndexError | AttributeError | FileNotFoundError

subsection \<open>The tables \<open>model_meta\<close> and \<open>model_features\<close>\<close>

text \<open>
  A model creation function is a Python function object, used as a dictionary key.  The
  seventeen functions the tables name are constructors; any other function is
  \<open>other_arch\<close> with its \<open>__name__\<close>.
\<close>

datatype arch =
    resnet18 | resnet34 | resnet50 | resnet101 | resnet152
  | vgg16 | vgg19
  | resnext50 | resnext101 | resnext101_64
  | wrn | inceptionresnet_2 | inception_4
  | dn121 | dn161 | dn169 | dn201
  | other_arch string

definition model_meta :: "arch \<rightharpoonup> int \<times> int" where
  "model_meta = map_of
     [(resnet18, (8, 6)), (resnet34, (8, 6)), (resnet50, (8, 6)), (resnet101, (8, 6)),
      (resnet152, (8, 6)),
      (vgg16, (0, 22)), (vgg19, (0, 22)),
      (resnext50, (8, 6)), (resnext101, (8, 6)), (resnext101_64, (8, 6)),
      (wrn, (8, 6)), (inceptionresnet_2, (- 2, 9)), (inception_4, (- 1, 9)),
      (dn121, (0, 7)), (dn161, (0, 7)), (dn169, (0, 7)), (dn201, (0, 7))]"

definition model_features :: "arch \<rightharpoonup> nat" where
  "model_features = map_of [(inception_4, 3072), (dn121, 2048), (dn161, 4416)]"

subsection \<open>\<open>ConvnetBuilder\<close>\<close>

text \<open>
  The attributes \<open>__init__\<close> has set when it calls \<open>get_fc_layers\<close>, and the three it sets
  afterwards.
\<close>

record ConvnetBuilder0 =
  model_creation_function :: arch
  last_layer_size :: nat
  is_multi :: bool
  is_reg :: bool
  xtra_cut :: int
  dropout_percs :: "real list"
  xtra_fc :: "nat list"
  lr_cut :: int
  nf :: nat
  top_model :: layer

record ConvnetBuilder = ConvnetBuilder0 +
  n_fc :: nat
  fc_model :: layer
  model :: layer

text \<open>
  \<open>create_fc_layer\<close>.  \<open>if p\<close> is true of a number that is not zero; \<open>if actn\<close> is true of
  a module object and false of \<open>None\<close>.
\<close>

definition create_fc_layer ::
  "nat \<Rightarrow> nat \<Rightarrow> real \<Rightarrow> layer option \<Rightarrow> nat \<Rightarrow> layer list \<times> nat" where
  "create_fc_layer ni nf' p actn h =
     (let (bn, h1) = new_module (BatchNorm1d ni) [] h;
          res = [bn];
          (res, h2) = (if p \<noteq> 0
                       then (let (d, h') = new_module (Dropout p) [] h1 in (res @ [d], h'))
                       else (res, h1));
          (lin, h3) = new_module (Linear ni nf') [] h2;
          res = res @ [lin];
          res = (case actn of Some a \<Rightarrow> res @ [a] | None \<Rightarrow> res)
      in (res, h3))"

text \<open>
  The loop of \<open>get_fc_layers\<close> over \<open>enumerate(self.xtra_fc)\<close>: \<open>i\<close> is the index, \<open>ni\<close>
  the running input width, \<open>res\<close> the layers so far.  \<open>self.dropout_percs[i]\<close> is evaluated
  before \<open>nn.ReLU()\<close> and raises IndexError out of range.
\<close>

fun fc_loop ::
  "real list \<Rightarrow> nat \<Rightarrow> nat list \<Rightarrow> nat \<Rightarrow> layer list \<Rightarrow> nat \<Rightarrow> error + (layer list \<times> nat \<times> nat)"
  where
  "fc_loop dps i [] ni res h = Inr (res, ni, h)"
| "fc_loop dps i (nf' # rest) ni res h =
     (if i < length dps then
        (let p = dps ! i;
             (actn, h1) = new_module ReLU [] h;
             (ls, h2) = create_fc_layer ni nf' p (Some actn) h1
         in fc_loop dps (Suc i) rest nf' (res @ ls) h2)
      else Inl IndexError)"

text \<open>
  \<open>get_fc_layers\<close>.  The final activation object is constructed before \<open>is_reg\<close> is looked
  at, and dropped when \<open>is_reg\<close> holds.  \<open>self.dropout_percs[-1]\<close> raises IndexError on the
  empty list.
\<close>

definition get_fc_layers :: "'a ConvnetBuilder0_scheme \<Rightarrow> nat \<Rightarrow> error + (layer list \<times> nat)" where
  "get_fc_layers b h =
     (case fc_loop (dropout_percs b) 0 (xtra_fc b) (nf b) [] h of
        Inl e \<Rightarrow> Inl e
      | Inr (res, ni, h1) \<Rightarrow>
          (let (a, h2) = (if is_multi b then new_module Sigmoid [] h1
                          else new_module LogSoftmax [] h1);
               final_actn = (if is_reg b then None else Some a)
           in if dropout_percs b = [] then Inl IndexError
              else (let (ls, h3) = create_fc_layer ni (last_layer_size b)
                                     (last (dropout_percs b)) final_actn h2
                    in Inr (res @ ls, h3))))"

text \<open>
  What \<open>__init__\<close> calls and this file does not define: the model creation function applied
  to \<open>True\<close> (it allocates the pretrained network), \<open>cut_model\<close> and \<open>num_features\<close>.
  \<open>to_gpu\<close> returns its argument and \<open>apply_init\<close> only writes weights, which are not
  part of this model.
\<close>

record builder_env =
  pretrained_net :: "arch \<Rightarrow> nat \<Rightarrow> layer \<times> nat"
  cut_model :: "layer \<Rightarrow> int \<Rightarrow> layer list"
  num_features :: "layer list \<Rightarrow> nat"

text \<open>The argument \<open>dropout_percs\<close>: a list, or anything else (a single number).\<close>

datatype dropout_arg = Percs "real list" | Perc real

text \<open>
  \<open>__init__\<close>, in two steps: up to the replication of a single dropout number (the
  attributes \<open>get_fc_layers\<close> reads are then set; the list \<open>layers\<close> and the next free
  address are passed on), and from the call of \<open>get_fc_layers\<close> to the end.
\<close>

definition ConvnetBuilder_init0 ::
  "builder_env \<Rightarrow> arch \<Rightarrow> nat \<Rightarrow> bool \<Rightarrow> bool \<Rightarrow> dropout_arg option \<Rightarrow> nat list option \<Rightarrow> int
     \<Rightarrow> nat \<Rightarrow> ConvnetBuilder0 \<times> layer list \<times> nat" where
  "ConvnetBuilder_init0 env f lls multi reg dropout_percs_arg xtra_fc_arg xcut h =
     (let dp = (case dropout_percs_arg of None \<Rightarrow> Percs [0.25, 0.5] | Some d \<Rightarrow> d);
          xfc = (case xtra_fc_arg of None \<Rightarrow> [512] | Some x \<Rightarrow> x);
          (cut, lrc) = (case model_meta f of Some m \<Rightarrow> m | None \<Rightarrow> (0, 0));
          cut = cut - xcut;
          (net, h1) = pretrained_net env f h;
          layers = cut_model env net cut;
          nf' = (case model_features f of Some n \<Rightarrow> n | None \<Rightarrow> num_features env layers * 2);
          (pool, h2) = new_module AdaptiveConcatPool2d [] h1;
          (flat, h3) = new_module Flatten [] h2;
          layers = layers @ [pool, flat];
          (top, h4) = new_module Sequential layers h3;
          n_fc' = length xfc + 1;
          dps = (case dp of Percs ps \<Rightarrow> ps | Perc p \<Rightarrow> replicate n_fc' p)
      in (\<lparr>model_creation_function = f, last_layer_size = lls, is_multi = multi,
           is_reg = reg, xtra_cut = xcut, dropout_percs = dps, xtra_fc = xfc,
           lr_cut = lrc, nf = nf', top_model = top\<rparr>, layers, h4))"

definition ConvnetBuilder_init ::
  "builder_env \<Rightarrow> arch \<Rightarrow> nat \<Rightarrow> bool \<Rightarrow> bool \<Rightarrow> dropout_arg option \<Rightarrow> nat list option \<Rightarrow> int
     \<Rightarrow> nat \<Rightarrow> error + (ConvnetBuilder \<times> nat)" where
  "ConvnetBuilder_init env f lls multi reg dropout_percs_arg xtra_fc_arg xcut h =
     (let (b0, layers, h4) =
            ConvnetBuilder_init0 env f lls multi reg dropout_percs_arg xtra_fc_arg xcut h
      in case get_fc_layers b0 h4 of
           Inl e \<Rightarrow> Inl e
         | Inr (fc_layers, h5) \<Rightarrow>
             (let (fcm, h6) = new_module Sequential fc_layers h5;
                  (m, h7) = new_module Sequential (layers @ fc_layers) h6
              in Inr (ConvnetBuilder0.extend b0
                        \<lparr>n_fc = length fc_layers, fc_model = fcm, model = m\<rparr>, h7)))"

text \<open>The name of a model creation function, and Python's \<open>str\<close> of an integer.\<close>

fun arch_name :: "arch \<Rightarrow> string" where
  "arch_name resnet18 = ''resnet18''"
| "arch_name resnet34 = ''resnet34''"
| "arch_name resnet50 = ''resnet50''"
| "arch_name resnet101 = ''resnet101''"
| "arch_name resnet152 = ''resnet152''"
| "arch_name vgg16 = ''vgg16''"
| "arch_name vgg19 = ''vgg19''"
| "arch_name resnext50 = ''resnext50''"
| "arch_name resnext101 = ''resnext101''"
| "arch_name resnext101_64 = ''resnext101_64''"
| "arch_name wrn = ''wrn''"
| "arch_name inceptionresnet_2 = ''inceptionresnet_2''"
| "arch_name inception_4 = ''inception_4''"
| "arch_name dn121 = ''dn121''"
| "arch_name dn161 = ''dn161''"
| "arch_name dn169 = ''dn169''"
| "arch_name dn201 = ''dn201''"
| "arch_name (other_arch n) = n"

definition digit_char :: "nat \<Rightarrow> char" where
  "digit_char d = ''0123456789'' ! d"

fun str_nat :: "nat \<Rightarrow> string" where
  "str_nat n =
     (if n < 10 then [digit_char n] else str_nat (n div 10) @ [digit_char (n mod 10)])"

definition str_int :: "int \<Rightarrow> string" where
  "str_int i = (if i < 0 then CHR ''-'' # str_nat (nat (- i)) else str_nat (nat i))"

definition name :: "'a ConvnetBuilder0_scheme \<Rightarrow> string" where
  "name b = arch_name (model_creation_function b) @ ''_'' @ str_int (xtra_cut b)"

text \<open>
  \<open>get_layer_groups\<close>.  A layer group is a Python list of modules or, for the head, the
  \<open>Sequential\<close> itself.  \<open>split_by_idxs\<close> is not defined in this file and is a parameter.
\<close>

datatype layer_group = Layers "layer list" | Module layer

definition get_layer_groups ::
  "(layer list \<Rightarrow> int list \<Rightarrow> layer list list) \<Rightarrow> ConvnetBuilder \<Rightarrow> bool \<Rightarrow> layer_group list" where
  "get_layer_groups split_by_idxs b do_fc =
     (if do_fc then [Module (fc_model b)]
      else (let idxs = [lr_cut b];
                c = children (top_model b);
                c = (if length c = 3 then children (c ! 0) @ drop 1 c else c);
                lgs = split_by_idxs c idxs
            in map Layers lgs @ [Module (fc_model b)]))"

section \<open>fastai/conv\_learner.py: the learner\<close>

subsection \<open>The data object, the array store and the learner's state\<close>

text \<open>
  The attributes of the dataset object (\<open>ImageClassifierData\<close>) that the file reads.  A
  dataset and a data loader are the list of the items they hold; \<open>test_dl\<close> is \<open>None\<close>
  when there is no test set.  The attribute \<open>c\<close> is \<open>data_c\<close> here.
\<close>

type_synonym dataset = "nat list"

record ImageClassifierData =
  path :: string
  sz :: nat
  data_c :: nat
  bs :: nat
  classes :: "string list"
  is_multi :: bool
  is_reg :: bool
  train_ds :: dataset
  val_ds :: dataset
  test_ds :: dataset
  fix_dl :: dataset
  val_dl :: dataset
  test_dl :: "dataset option"
  train_y :: "nat list"
  val_y :: "nat list"

text \<open>
  A bcolz array on disk: its row width and its rows.  A \<open>carray\<close> object is a handle on
  the directory it lives in, so the model keeps the directory's name and reads the rows from
  the store.
\<close>

record carray =
  ncols :: nat
  rows :: "real list list"

datatype loss = binary_cross_entropy | nll_loss | l1_loss

datatype metric = accuracy | accuracy_thresh real | other_metric string

text \<open>The calls a run makes, in order (kept for the claims about what is called when).\<close>

datatype event = Ev_save_fc1 | Ev_freeze | Ev_unfreeze | Ev_predict_to_bcolz string

text \<open>
  The part of the world the learner's methods change: the array store \<open>disk\<close>, the
  \<open>requires_grad\<close> flag of every module object, and the trace of calls.  The learner's
  state is the world and its attributes.  The attribute \<open>data_\<close> is \<open>data'\<close> here.
  \<open>activations\<close> and \<open>fc_data\<close> do not exist before \<open>get_activations\<close> and
  \<open>save_fc1\<close> have set them.
\<close>

record world =
  disk :: "string \<rightharpoonup> carray"
  requires_grad :: "nat \<Rightarrow> bool"
  trace :: "event list"

record ConvLearner = world +
  precompute :: bool
  data' :: ImageClassifierData
  models :: ConvnetBuilder
  metrics :: "metric list option"
  crit :: "loss option"
  tmp_path :: string
  activations :: "string list option"
  fc_data :: "ImageClassifierData option"

text \<open>
  What the learner calls and this file does not define.  \<open>from_arrays\<close> is given the
  handles of the arrays and the store they point into.
\<close>

record learner_env =
  split_by_idxs :: "layer list \<Rightarrow> int list \<Rightarrow> layer list list"
  predict_to_bcolz :: "layer \<Rightarrow> dataset \<Rightarrow> carray \<Rightarrow> carray"
  from_arrays :: "(string \<rightharpoonup> carray) \<Rightarrow> string \<Rightarrow> string \<times> nat list \<Rightarrow> string \<times> nat list
                    \<Rightarrow> nat \<Rightarrow> string list \<Rightarrow> string option \<Rightarrow> ImageClassifierData"

subsection \<open>Properties and \<open>get_layer_groups\<close>\<close>

definition ConvLearner_model :: "ConvLearner \<Rightarrow> layer" where
  "ConvLearner_model s = (if precompute s then fc_model (models s) else model (models s))"

text \<open>Reading \<open>self.fc_data\<close> before \<open>save_fc1\<close> has set it raises AttributeError.\<close>

definition ConvLearner_data :: "ConvLearner \<Rightarrow> error + ImageClassifierData" where
  "ConvLearner_data s =
     (if precompute s
      then (case fc_data s of None \<Rightarrow> Inl AttributeError | Some d \<Rightarrow> Inr d)
      else Inr (data' s))"

definition ConvLearner_get_layer_groups :: "learner_env \<Rightarrow> ConvLearner \<Rightarrow> layer_group list" where
  "ConvLearner_get_layer_groups env s =
     get_layer_groups (split_by_idxs env) (models s) (precompute s)"

subsection \<open>Freezing\<close>

text \<open>Python's \<open>xs[n:]\<close>.\<close>

definition py_slice_from :: "int \<Rightarrow> 'a list \<Rightarrow> 'a list" where
  "py_slice_from n xs =
     (if n < 0 then drop (nat (int (length xs) + n)) xs else drop (nat n) xs)"

fun oids :: "layer \<Rightarrow> nat list" where
  "oids (Layer i k cs) = i # concat (map oids cs)"

fun group_oids :: "layer_group \<Rightarrow> nat list" where
  "group_oids (Layers ls) = concat (map oids ls)"
| "group_oids (Module m) = oids m"

text \<open>
  Modelled from the spec: \<open>set_trainable\<close> is defined in a module that is not part of this
  file.  It makes a layer group trainable or untrainable: it sets the flag of every module
  object in the group, whatever else holds the object.
\<close>

definition set_trainable :: "layer_group \<Rightarrow> bool \<Rightarrow> ConvLearner \<Rightarrow> ConvLearner" where
  "set_trainable l b s =
     s\<lparr>requires_grad := (\<lambda>i. if List.member (group_oids l) i then b else requires_grad s i)\<rparr>"

text \<open>
  Modelled from the spec: \<open>Learner.freeze_to\<close> is inherited from a module that is not part
  of this file.  The specification has the orchestrator ask the builder for the layer groups
  and freeze all of them but the head, and the docstrings of \<open>freeze\<close> and \<open>unfreeze\<close>
  say that \<open>freeze_to(-1)\<close> makes every layer untrainable except the last and that
  \<open>freeze_to(0)\<close> makes all layers trainable: \<open>freeze_to n\<close> takes the learner's layer
  groups, makes every group untrainable, and then makes the groups from index \<open>n\<close> on
  trainable.
\<close>

definition freeze_to :: "learner_env \<Rightarrow> int \<Rightarrow> ConvLearner \<Rightarrow> ConvLearner" where
  "freeze_to env n s =
     (let c = ConvLearner_get_layer_groups env s;
          s1 = fold (\<lambda>l. set_trainable l False) c s
      in fold (\<lambda>l. set_trainable l True) (py_slice_from n c) s1)"

definition freeze :: "learner_env \<Rightarrow> ConvLearner \<Rightarrow> ConvLearner" where
  "freeze env s = freeze_to env (- 1) (s\<lparr>trace := trace s @ [Ev_freeze]\<rparr>)"

definition unfreeze :: "learner_env \<Rightarrow> ConvLearner \<Rightarrow> ConvLearner" where
  "unfreeze env s =
     (let s1 = freeze_to env 0 (s\<lparr>trace := trace s @ [Ev_unfreeze]\<rparr>)
      in s1\<lparr>precompute := False\<rparr>)"

subsection \<open>\<open>summary\<close>\<close>

text \<open>
  \<open>super().summary()\<close> is the parameter \<open>super_summary\<close>: it may change the learner, and
  it may raise, in which case the assignment after it is not reached.
\<close>

definition summary ::
  "(ConvLearner \<Rightarrow> error + ('r \<times> ConvLearner)) \<Rightarrow> ConvLearner \<Rightarrow> error + ('r \<times> ConvLearner)" where
  "summary super_summary s =
     (let temp = precompute s;
          s1 = s\<lparr>precompute := False\<rparr>
      in case super_summary s1 of
           Inl e \<Rightarrow> Inl e
         | Inr (res, s2) \<Rightarrow> Inr (res, s2\<lparr>precompute := temp\<rparr>))"

subsection \<open>The activation cache\<close>

text \<open>\<open>os.path.join\<close> of two components on a POSIX system.\<close>

definition os_path_join :: "string \<Rightarrow> string \<Rightarrow> string" where
  "os_path_join a b =
     (if b \<noteq> [] \<and> hd b = CHR ''/'' then b
      else if a = [] \<or> last a = CHR ''/'' then a @ b
      else a @ ''/'' @ b)"

text \<open>
  \<open>create_empty_bcolz\<close>: \<open>mode='w'\<close> with a \<open>rootdir\<close> writes an array of no rows to that
  directory, replacing what was there, and returns the handle.
\<close>

definition create_empty_bcolz :: "nat \<Rightarrow> string \<Rightarrow> ConvLearner \<Rightarrow> string \<times> ConvLearner" where
  "create_empty_bcolz n nm s = (nm, s\<lparr>disk := (disk s)(nm \<mapsto> \<lparr>ncols = n, rows = []\<rparr>)\<rparr>)"

text \<open>The three directory names of \<open>get_activations\<close>.\<close>

definition activation_names :: "ConvLearner \<Rightarrow> ImageClassifierData \<Rightarrow> string list" where
  "activation_names s d =
     (let tmpl = ''_'' @ name (models s) @ ''_'' @ str_nat (sz d) @ ''.bc''
      in map (\<lambda>p. os_path_join (tmp_path s) (p @ tmpl)) [''x_act'', ''x_act_val'', ''x_act_test''])"

text \<open>
  \<open>get_activations\<close>.  \<open>os.path.exists\<close> is membership in the store; \<open>bcolz.open\<close> of a
  directory that does not exist raises.
\<close>

definition get_activations :: "bool \<Rightarrow> ConvLearner \<Rightarrow> error + ConvLearner" where
  "get_activations force s =
     (case ConvLearner_data s of
        Inl e \<Rightarrow> Inl e
      | Inr d \<Rightarrow>
          (let names = activation_names s d
           in if disk s (names ! 0) \<noteq> None \<and> \<not> force
              then (if list_all (\<lambda>p. disk s p \<noteq> None) names
                    then Inr (s\<lparr>activations := Some names\<rparr>)
                    else Inl FileNotFoundError)
              else (let s1 = fold (\<lambda>n s'. snd (create_empty_bcolz (nf (models s)) n s')) names s
                    in Inr (s1\<lparr>activations := Some names\<rparr>))))"

text \<open>
  \<open>len\<close> of the array behind a handle, and a call of \<open>predict_to_bcolz\<close> on it.  A
  handle that \<open>get_activations\<close> returned has its array in the store.
\<close>

definition carray_len :: "ConvLearner \<Rightarrow> string \<Rightarrow> nat" where
  "carray_len s nm = (case disk s nm of Some a \<Rightarrow> length (rows a) | None \<Rightarrow> 0)"

definition call_predict_to_bcolz ::
  "learner_env \<Rightarrow> layer \<Rightarrow> dataset \<Rightarrow> string \<Rightarrow> ConvLearner \<Rightarrow> ConvLearner" where
  "call_predict_to_bcolz env m dl nm s =
     (case disk s nm of
        None \<Rightarrow> s\<lparr>trace := trace s @ [Ev_predict_to_bcolz nm]\<rparr>
      | Some a \<Rightarrow> s\<lparr>disk := (disk s)(nm \<mapsto> predict_to_bcolz env m dl a),
                     trace := trace s @ [Ev_predict_to_bcolz nm]\<rparr>)"

text \<open>
  \<open>save_fc1\<close>.  \<open>self.data\<close> is read after \<open>get_activations\<close> has returned, which changes
  nothing the property depends on.  A data loader is true when it holds an item.
\<close>

definition truthy_dl :: "dataset option \<Rightarrow> bool" where
  "truthy_dl dl = (case dl of None \<Rightarrow> False | Some xs \<Rightarrow> xs \<noteq> [])"

definition save_fc1 :: "learner_env \<Rightarrow> ConvLearner \<Rightarrow> error + ConvLearner" where
  "save_fc1 env s0 =
     (case get_activations False (s0\<lparr>trace := trace s0 @ [Ev_save_fc1]\<rparr>) of
        Inl e \<Rightarrow> Inl e
      | Inr s \<Rightarrow>
          (case (activations s, ConvLearner_data s) of
             (Some [acts, val_acts, test_acts], Inr d) \<Rightarrow>
               (let m = top_model (models s);
                    s1 = (if carray_len s acts \<noteq> length (train_ds d)
                          then call_predict_to_bcolz env m (fix_dl d) acts s else s);
                    s2 = (if carray_len s1 val_acts \<noteq> length (val_ds d)
                          then call_predict_to_bcolz env m (val_dl d) val_acts s1 else s1);
                    s3 = (case test_dl d of
                            None \<Rightarrow> s2
                          | Some tdl \<Rightarrow>
                              if truthy_dl (Some tdl)
                                 \<and> carray_len s2 test_acts \<noteq> length (test_ds d)
                              then (if truthy_dl (Some tdl)
                                    then call_predict_to_bcolz env m tdl test_acts s2
                                    else s2)
                              else s2)
                in Inr (s3\<lparr>fc_data := Some (from_arrays env (disk s3) (path d)
                          (acts, train_y d) (val_acts, val_y d) (bs d) (classes d)
                          (if truthy_dl (test_dl d) then Some test_acts else None))\<rparr>))
           | (_, Inl e) \<Rightarrow> Inl e
           | _ \<Rightarrow> Inl AttributeError))"

subsection \<open>Construction\<close>

text \<open>
  Modelled from the spec: \<open>Learner.__init__\<close> is inherited from a module that is not part
  of this file.  It stores the data object, the builder and the \<open>metrics\<close> keyword as the
  attributes \<open>data_\<close>, \<open>models\<close> and \<open>metrics\<close> that \<open>ConvLearner\<close> reads back, and keeps
  its temporary files under the data's path.  It is called on an object whose only
  attribute is \<open>precompute\<close>, in the world \<open>w\<close>, which it leaves as it is.
\<close>

record learner_kwargs =
  kw_metrics :: "metric list option"
  kw_tmp_name :: string

definition Learner_init ::
  "ImageClassifierData \<Rightarrow> ConvnetBuilder \<Rightarrow> learner_kwargs \<Rightarrow> bool \<Rightarrow> world \<Rightarrow> ConvLearner" where
  "Learner_init d m kw pc w =
     \<lparr>disk = disk w, requires_grad = requires_grad w, trace = trace w,
      precompute = pc, data' = d, models = m, metrics = kw_metrics kw, crit = None,
      tmp_path = os_path_join (path d) (kw_tmp_name kw), activations = None, fc_data = None\<rparr>"

text \<open>\<open>ConvLearner.__init__\<close>, in the world \<open>w\<close>.\<close>

definition ConvLearner_init ::
  "learner_env \<Rightarrow> ImageClassifierData \<Rightarrow> ConvnetBuilder \<Rightarrow> bool \<Rightarrow> learner_kwargs
     \<Rightarrow> world \<Rightarrow> error + ConvLearner" where
  "ConvLearner_init env d m precompute_arg kw w =
     (let s = Learner_init d m kw False w;
          s = s\<lparr>crit := Some (if is_multi d then binary_cross_entropy else nll_loss)\<rparr>
      in case (if is_reg d then Inr (s\<lparr>crit := Some l1_loss\<rparr>)
               else if metrics s = None
               then (case ConvLearner_data s of
                       Inl e \<Rightarrow> Inl e
                     | Inr sd \<Rightarrow> Inr (s\<lparr>metrics :=
                         Some (if is_multi sd then [accuracy_thresh 0.5] else [accuracy])\<rparr>))
               else Inr s) of
           Inl e \<Rightarrow> Inl e
         | Inr s \<Rightarrow>
             (case (if precompute_arg then save_fc1 env s else Inr s) of
                Inl e \<Rightarrow> Inl e
              | Inr s \<Rightarrow> Inr ((freeze env s)\<lparr>precompute := precompute_arg\<rparr>)))"

text \<open>The class method \<open>pretrained\<close>: build the network, then the learner.\<close>

definition pretrained ::
  "builder_env \<Rightarrow> learner_env \<Rightarrow> arch \<Rightarrow> ImageClassifierData \<Rightarrow> dropout_arg option
     \<Rightarrow> nat list option \<Rightarrow> int \<Rightarrow> bool \<Rightarrow> learner_kwargs \<Rightarrow> nat \<Rightarrow> world
     \<Rightarrow> error + (ConvLearner \<times> nat)" where
  "pretrained benv env f d dropout_percs_arg xtra_fc_arg xcut precompute_arg kw h w =
     (case ConvnetBuilder_init benv f (data_c d) (is_multi d) (is_reg d)
             dropout_percs_arg xtra_fc_arg xcut h of
        Inl e \<Rightarrow> Inl e
      | Inr (m, h') \<Rightarrow>
          (case ConvLearner_init env d m precompute_arg kw w of
             Inl e \<Rightarrow> Inl e
           | Inr s \<Rightarrow> Inr (s, h')))"

text \<open>
  Modelled from the spec: \<open>Learner.set_data\<close> is inherited from a module that is not part
  of this file.  It replaces the data object the learner trains on.
\<close>

definition Learner_set_data :: "ImageClassifierData \<Rightarrow> ConvLearner \<Rightarrow> ConvLearner" where
  "Learner_set_data d s = s\<lparr>data' := d\<rparr>"

text \<open>\<open>set_data\<close>.\<close>

definition set_data ::
  "learner_env \<Rightarrow> ImageClassifierData \<Rightarrow> bool \<Rightarrow> ConvLearner \<Rightarrow> error + ConvLearner" where
  "set_data env d precompute_arg s =
     (let s = Learner_set_data d s
      in if precompute_arg
         then (let s = unfreeze env s
               in case save_fc1 env s of
                    Inl e \<Rightarrow> Inl e
                  | Inr s \<Rightarrow> Inr ((freeze env s)\<lparr>precompute := True\<rparr>))
         else Inr (freeze env s))"

section \<open>A small instance\<close>

text \<open>
  Concrete values of the parameters, for evaluating the definitions: a network of ten
  modules named as a ResNet names its children, \<open>cut_model\<close>, \<open>split_by_idxs\<close> and
  \<open>predict_to_bcolz\<close> as fastai writes them (the first keeps the children before the cut,
  or the whole network when the cut is 0; the last replaces the rows by one row per item),
  and a data object of three training and two validation images without a test set.
\<close>

definition py_slice :: "int \<Rightarrow> int \<Rightarrow> 'a list \<Rightarrow> 'a list" where
  "py_slice a b xs =
     (let n = int (length xs);
          lo = (if a < 0 then max (n + a) 0 else min a n);
          hi = (if b < 0 then max (n + b) 0 else min b n)
      in take (nat (hi - lo)) (drop (nat lo) xs))"

definition ex_net :: "arch \<Rightarrow> nat \<Rightarrow> layer \<times> nat" where
  "ex_net f h =
     (Layer h (Pretrained (arch_name f))
        [Layer (h + 1) (Pretrained ''conv1'') [], Layer (h + 2) (Pretrained ''bn1'') [],
         Layer (h + 3) (Pretrained ''relu'') [], Layer (h + 4) (Pretrained ''maxpool'') [],
         Layer (h + 5) (Pretrained ''layer1'') [], Layer (h + 6) (Pretrained ''layer2'') [],
         Layer (h + 7) (Pretrained ''layer3'') [], Layer (h + 8) (Pretrained ''layer4'') [],
         Layer (h + 9) (Pretrained ''avgpool'') [], Layer (h + 10) (Pretrained ''fc'') []],
      h + 11)"

definition ex_cut_model :: "layer \<Rightarrow> int \<Rightarrow> layer list" where
  "ex_cut_model m n = (if n \<noteq> 0 then py_slice 0 n (children m) else [m])"

definition ex_benv :: builder_env where
  "ex_benv = \<lparr>pretrained_net = ex_net, cut_model = ex_cut_model, num_features = (\<lambda>ls. 512)\<rparr>"

fun ex_split_from :: "int \<Rightarrow> layer list \<Rightarrow> int list \<Rightarrow> layer list list" where
  "ex_split_from lst seq [] = [py_slice_from lst seq]"
| "ex_split_from lst seq (idx # idxs) = py_slice lst idx seq # ex_split_from idx seq idxs"

definition ex_predict :: "layer \<Rightarrow> dataset \<Rightarrow> carray \<Rightarrow> carray" where
  "ex_predict m dl a = a\<lparr>rows := map (\<lambda>x. [real x]) dl\<rparr>"

definition ex_from_arrays ::
  "(string \<rightharpoonup> carray) \<Rightarrow> string \<Rightarrow> string \<times> nat list \<Rightarrow> string \<times> nat list \<Rightarrow> nat \<Rightarrow> string list
     \<Rightarrow> string option \<Rightarrow> ImageClassifierData" where
  "ex_from_arrays dsk p trn val b cls test =
     \<lparr>path = p, sz = (case dsk (fst trn) of Some a \<Rightarrow> ncols a | None \<Rightarrow> 0),
      data_c = length cls, bs = b, classes = cls, is_multi = False, is_reg = False,
      train_ds = [0..<length (snd trn)], val_ds = [0..<length (snd val)], test_ds = [],
      fix_dl = [0..<length (snd trn)], val_dl = [0..<length (snd val)],
      test_dl = None, train_y = snd trn, val_y = snd val\<rparr>"

definition ex_env :: learner_env where
  "ex_env = \<lparr>split_by_idxs = ex_split_from 0, predict_to_bcolz = ex_predict,
             from_arrays = ex_from_arrays\<rparr>"

definition ex_data :: ImageClassifierData where
  "ex_data =
     \<lparr>path = ''data'', sz = 224, data_c = 2, bs = 64, classes = [''cat'', ''dog''],
      is_multi = False, is_reg = False,
      train_ds = [0, 1, 2], val_ds = [3, 4], test_ds = [],
      fix_dl = [0, 1, 2], val_dl = [3, 4], test_dl = None,
      train_y = [0, 1, 0], val_y = [1, 1]\<rparr>"

definition ex_kwargs :: learner_kwargs where
  "ex_kwargs = \<lparr>kw_metrics = None, kw_tmp_name = ''tmp''\<rparr>"

definition ex_world :: world where
  "ex_world = \<lparr>disk = Map.empty, requires_grad = (\<lambda>i. True), trace = []\<rparr>"

text \<open>
  The builder that \<open>ConvnetBuilder(resnet34, 2, False, False)\<close> constructs in this
  instance, starting at address 0, and the learner on it before \<open>save_fc1\<close> runs.
\<close>

definition ex_models :: ConvnetBuilder where
  "ex_models =
     \<lparr>model_creation_function = resnet34, last_layer_size = 2,
      ConvnetBuilder0.is_multi = False, ConvnetBuilder0.is_reg = False, xtra_cut = 0,
      dropout_percs = [0.25, 0.5], xtra_fc = [512], lr_cut = 6, nf = 1024,
      top_model = Layer 13 Sequential
        [Layer 1 (Pretrained ''conv1'') [], Layer 2 (Pretrained ''bn1'') [],
         Layer 3 (Pretrained ''relu'') [], Layer 4 (Pretrained ''maxpool'') [],
         Layer 5 (Pretrained ''layer1'') [], Layer 6 (Pretrained ''layer2'') [],
         Layer 7 (Pretrained ''layer3'') [], Layer 8 (Pretrained ''layer4'') [],
         Layer 11 AdaptiveConcatPool2d [], Layer 12 Flatten []],
      n_fc = 8,
      fc_model = Layer 22 Sequential
        [Layer 15 (BatchNorm1d 1024) [], Layer 16 (Dropout 0.25) [],
         Layer 17 (Linear 1024 512) [], Layer 14 ReLU [],
         Layer 19 (BatchNorm1d 512) [], Layer 20 (Dropout 0.5) [],
         Layer 21 (Linear 512 2) [], Layer 18 LogSoftmax []],
      model = Layer 23 Sequential
        [Layer 1 (Pretrained ''conv1'') [], Layer 2 (Pretrained ''bn1'') [],
         Layer 3 (Pretrained ''relu'') [], Layer 4 (Pretrained ''maxpool'') [],
         Layer 5 (Pretrained ''layer1'') [], Layer 6 (Pretrained ''layer2'') [],
         Layer 7 (Pretrained ''layer3'') [], Layer 8 (Pretrained ''layer4'') [],
         Layer 11 AdaptiveConcatPool2d [], Layer 12 Flatten [],
         Layer 15 (BatchNorm1d 1024) [], Layer 16 (Dropout 0.25) [],
         Layer 17 (Linear 1024 512) [], Layer 14 ReLU [],
         Layer 19 (BatchNorm1d 512) [], Layer 20 (Dropout 0.5) [],
         Layer 21 (Linear 512 2) [], Layer 18 LogSoftmax []]\<rparr>"

section \<open>Notions of the specification\<close>

text \<open>The two final activations of a classification head.\<close>

fun is_final_actn :: "kind \<Rightarrow> bool" where
  "is_final_actn Sigmoid = True"
| "is_final_actn LogSoftmax = True"
| "is_final_actn k = False"






definition group_trainable :: "ConvLearner \<Rightarrow> layer_group \<Rightarrow> bool" where
  "group_trainable s g = list_all (requires_grad s) (group_oids g)"

text \<open>
  A call of \<open>predict_to_bcolz\<close> under a condition, as \<open>save_fc1\<close> makes three of; and
  what the claims about the cache expect of \<open>predict_to_bcolz\<close>: the array it has written
  has as many rows as the dataset behind the loader it was given.
\<close>

definition predict_when ::
  "bool \<Rightarrow> learner_env \<Rightarrow> layer \<Rightarrow> dataset \<Rightarrow> string \<Rightarrow> ConvLearner \<Rightarrow> ConvLearner" where
  "predict_when c env m dl nm s = (if c then call_predict_to_bcolz env m dl nm s else s)"


text \<open>Which of the learner's layer groups are trainable, in order.\<close>

definition trainable_groups :: "learner_env \<Rightarrow> ConvLearner \<Rightarrow> bool list" where
  "trainable_groups env s = map (group_trainable s) (ConvLearner_get_layer_groups env s)"

section \<open>Properties\<close>

subsection \<open>The head and the builder\<close>


lemma create_fc_layer_no_final:
  "\<not> is_final_actn (kind a) \<Longrightarrow>
   filter (\<lambda>l. is_final_actn (kind l)) (fst (create_fc_layer ni no p (Some a) h)) = []"
  by (simp add: create_fc_layer_def new_module_def Let_def)

lemma create_fc_layer_last:
  "last (fst (create_fc_layer ni no p actn h)) =
     (case actn of None \<Rightarrow> Layer (if p = 0 then Suc h else Suc (Suc h)) (Linear ni no) [] | Some a \<Rightarrow> a)"
  by (simp add: create_fc_layer_def new_module_def Let_def split: option.splits)

lemma create_fc_layer_filter_final:
  "filter (\<lambda>l. is_final_actn (kind l)) (fst (create_fc_layer ni no p actn h)) =
     (case actn of None \<Rightarrow> [] | Some a \<Rightarrow> if is_final_actn (kind a) then [a] else [])"
  by (simp add: create_fc_layer_def new_module_def Let_def split: option.splits)

lemma create_fc_layer_nonempty: "fst (create_fc_layer ni no p actn h) \<noteq> []"
  by (simp add: create_fc_layer_def new_module_def Let_def split: option.splits)

lemma fc_loop_Inr:
  "fc_loop dps i xs ni res h = Inr (res', ni', h') \<Longrightarrow>
     ni' = last (ni # xs) \<and> (\<exists>ls. res' = res @ ls \<and> filter (\<lambda>l. is_final_actn (kind l)) ls = [])"
proof (induction xs arbitrary: i ni res h)
  case Nil
  then show ?case by simp
next
  case (Cons no rest)
  from Cons.prems have lt: "i < length dps" by (simp split: if_splits)
  obtain ls h2 where c: "create_fc_layer ni no (dps ! i) (Some (Layer h ReLU [])) (Suc h) = (ls, h2)"
    by (cases "create_fc_layer ni no (dps ! i) (Some (Layer h ReLU [])) (Suc h)")
  from Cons.prems lt c have rec: "fc_loop dps (Suc i) rest no (res @ ls) h2 = Inr (res', ni', h')"
    by (simp add: new_module_def)
  from Cons.IH [OF rec] obtain ls' where
    a: "ni' = last (no # rest)" and b: "res' = (res @ ls) @ ls'"
    and f: "filter (\<lambda>l. is_final_actn (kind l)) ls' = []" by blast
  have "filter (\<lambda>l. is_final_actn (kind l)) ls = []"
    using create_fc_layer_no_final [of "Layer h ReLU []" ni no "dps ! i" "Suc h"] c by simp
  with a b f show ?case by simp
qed

lemma get_fc_layers_final:
  assumes "get_fc_layers b h = Inr (ls, h')"
  shows "map kind (filter (\<lambda>l. is_final_actn (kind l)) ls) =
           (if ConvnetBuilder0.is_reg b then []
            else if ConvnetBuilder0.is_multi b then [Sigmoid] else [LogSoftmax])
         \<and> kind (last ls) =
           (if ConvnetBuilder0.is_reg b then Linear (last (nf b # xtra_fc b)) (last_layer_size b)
            else if ConvnetBuilder0.is_multi b then Sigmoid else LogSoftmax)"
proof -
  from assms obtain res ni h1 where
    l: "fc_loop (dropout_percs b) 0 (xtra_fc b) (nf b) [] h = Inr (res, ni, h1)"
    by (auto simp: get_fc_layers_def split: sum.splits)
  from fc_loop_Inr [OF l] have ni: "ni = last (nf b # xtra_fc b)"
    and nofin: "filter (\<lambda>l. is_final_actn (kind l)) res = []" by auto
  let ?a = "Layer h1 (if ConvnetBuilder0.is_multi b then Sigmoid else LogSoftmax) []"
  let ?fa = "if ConvnetBuilder0.is_reg b then None else Some ?a"
  let ?c = "create_fc_layer ni (last_layer_size b) (last (dropout_percs b)) ?fa (Suc h1)"
  from assms l have ls: "ls = res @ fst ?c"
    by (auto simp: get_fc_layers_def new_module_def Let_def split: if_splits prod.splits)
  have 1: "filter (\<lambda>l. is_final_actn (kind l)) ls = (case ?fa of None \<Rightarrow> [] | Some a \<Rightarrow> [a])"
    unfolding ls using nofin by (simp add: create_fc_layer_filter_final)
  have 2: "last ls = last (fst ?c)"
    unfolding ls using create_fc_layer_nonempty by simp
  show ?thesis
    unfolding 1 2 create_fc_layer_last using ni by simp
qed

lemma get_fc_layers_cong:
  "dropout_percs b = dropout_percs b' \<Longrightarrow> xtra_fc b = xtra_fc b' \<Longrightarrow> nf b = nf b' \<Longrightarrow>
   ConvnetBuilder0.is_multi b = ConvnetBuilder0.is_multi b' \<Longrightarrow>
   ConvnetBuilder0.is_reg b = ConvnetBuilder0.is_reg b' \<Longrightarrow>
   last_layer_size b = last_layer_size b' \<Longrightarrow> get_fc_layers b h = get_fc_layers b' h"
  unfolding get_fc_layers_def by (simp add: new_module_def Let_def split: sum.splits)

lemma get_fc_layers_extend: "get_fc_layers (ConvnetBuilder0.extend b0 m) h = get_fc_layers b0 h"
  by (rule get_fc_layers_cong) (simp_all add: ConvnetBuilder0.extend_def)

lemma ConvnetBuilder_init0_fields:
  assumes "ConvnetBuilder_init0 env f lls multi reg dp xfc xcut h = (b0, layers, h4)"
  shows "model_creation_function b0 = f" and "last_layer_size b0 = lls"
    and "ConvnetBuilder0.is_multi b0 = multi" and "ConvnetBuilder0.is_reg b0 = reg"
    and "xtra_cut b0 = xcut"
    and "xtra_fc b0 = (case xfc of None \<Rightarrow> [512] | Some x \<Rightarrow> x)"
    and "dropout_percs b0 =
           (case dp of None \<Rightarrow> [0.25, 0.5] | Some (Percs ps) \<Rightarrow> ps
            | Some (Perc p) \<Rightarrow> replicate (length (xtra_fc b0) + 1) p)"
    and "lr_cut b0 = (case model_meta f of Some (c, l) \<Rightarrow> l | None \<Rightarrow> 0)"
    and "nf b0 = (case model_features f of Some n \<Rightarrow> n
                 | None \<Rightarrow> num_features env (cut_model env (fst (pretrained_net env f h))
                     (case model_meta f of Some (c, l) \<Rightarrow> c - xcut | None \<Rightarrow> - xcut)) * 2)"
    and "kind (top_model b0) = Sequential" and "children (top_model b0) = layers"
    and "\<exists>pool flat. layers =
           cut_model env (fst (pretrained_net env f h))
             (case model_meta f of Some (c, l) \<Rightarrow> c - xcut | None \<Rightarrow> - xcut) @ [pool, flat]
           \<and> kind pool = AdaptiveConcatPool2d \<and> kind flat = Flatten"
  using assms
  by (auto simp: ConvnetBuilder_init0_def Let_def new_module_def
      split: prod.splits option.splits dropout_arg.splits)

lemma ConvnetBuilder_init_Inr:
  assumes "ConvnetBuilder_init env f lls multi reg dp xfc xcut h = Inr (b, h')"
  shows "\<exists>b0 layers h4 h5.
           ConvnetBuilder_init0 env f lls multi reg dp xfc xcut h = (b0, layers, h4)
           \<and> get_fc_layers b0 h4 = Inr (children (fc_model b), h5)
           \<and> b = ConvnetBuilder0.extend b0
                   \<lparr>n_fc = length (children (fc_model b)), fc_model = fc_model b, model = model b\<rparr>
           \<and> kind (fc_model b) = Sequential \<and> kind (model b) = Sequential
           \<and> children (model b) = layers @ children (fc_model b)"
proof -
  obtain b0 layers h4 where
    i0: "ConvnetBuilder_init0 env f lls multi reg dp xfc xcut h = (b0, layers, h4)"
    by (cases "ConvnetBuilder_init0 env f lls multi reg dp xfc xcut h")
  from assms obtain fcs h5 where g: "get_fc_layers b0 h4 = Inr (fcs, h5)"
    and b: "b = ConvnetBuilder0.extend b0
          \<lparr>n_fc = length fcs, fc_model = Layer h5 Sequential fcs,
           model = Layer (Suc h5) Sequential (layers @ fcs)\<rparr>"
    unfolding ConvnetBuilder_init_def i0
    by (auto simp: new_module_def split: sum.splits)
  have "fc_model b = Layer h5 Sequential fcs" "model b = Layer (Suc h5) Sequential (layers @ fcs)"
    by (simp_all add: b ConvnetBuilder0.extend_def)
  with i0 g b show ?thesis by simp
qed

lemma ConvnetBuilder_init_fields:
  assumes "ConvnetBuilder_init env f lls multi reg dp xfc xcut h = Inr (b, h')"
  shows "model_creation_function b = f" and "last_layer_size b = lls"
    and "ConvnetBuilder0.is_multi b = multi" and "ConvnetBuilder0.is_reg b = reg"
    and "xtra_cut b = xcut"
    and "xtra_fc b = (case xfc of None \<Rightarrow> [512] | Some x \<Rightarrow> x)"
    and "dropout_percs b =
           (case dp of None \<Rightarrow> [0.25, 0.5] | Some (Percs ps) \<Rightarrow> ps
            | Some (Perc p) \<Rightarrow> replicate (length (xtra_fc b) + 1) p)"
    and "lr_cut b = (case model_meta f of Some (c, l) \<Rightarrow> l | None \<Rightarrow> 0)"
    and "nf b = (case model_features f of Some n \<Rightarrow> n
                 | None \<Rightarrow> num_features env (cut_model env (fst (pretrained_net env f h))
                     (case model_meta f of Some (c, l) \<Rightarrow> c - xcut | None \<Rightarrow> - xcut)) * 2)"
    and "kind (top_model b) = Sequential"
    and "\<exists>pool flat. children (top_model b) =
           cut_model env (fst (pretrained_net env f h))
             (case model_meta f of Some (c, l) \<Rightarrow> c - xcut | None \<Rightarrow> - xcut) @ [pool, flat]
           \<and> kind pool = AdaptiveConcatPool2d \<and> kind flat = Flatten"
    and "\<exists>h4 h5. get_fc_layers b h4 = Inr (children (fc_model b), h5)"
proof -
  from ConvnetBuilder_init_Inr [OF assms] obtain b0 layers h4 h5 where
    i0: "ConvnetBuilder_init0 env f lls multi reg dp xfc xcut h = (b0, layers, h4)"
    and g: "get_fc_layers b0 h4 = Inr (children (fc_model b), h5)"
    and b: "b = ConvnetBuilder0.extend b0
                   \<lparr>n_fc = length (children (fc_model b)), fc_model = fc_model b, model = model b\<rparr>"
    by blast
  have eq: "model_creation_function b = model_creation_function b0"
    "last_layer_size b = last_layer_size b0"
    "ConvnetBuilder0.is_multi b = ConvnetBuilder0.is_multi b0"
    "ConvnetBuilder0.is_reg b = ConvnetBuilder0.is_reg b0"
    "xtra_cut b = xtra_cut b0" "xtra_fc b = xtra_fc b0" "dropout_percs b = dropout_percs b0"
    "lr_cut b = lr_cut b0" "nf b = nf b0" "top_model b = top_model b0"
    by (subst b, simp add: ConvnetBuilder0.extend_def)+
  note f0 = ConvnetBuilder_init0_fields [OF i0]
  show "model_creation_function b = f" "last_layer_size b = lls"
    "ConvnetBuilder0.is_multi b = multi" "ConvnetBuilder0.is_reg b = reg" "xtra_cut b = xcut"
    "xtra_fc b = (case xfc of None \<Rightarrow> [512] | Some x \<Rightarrow> x)"
    "lr_cut b = (case model_meta f of Some (c, l) \<Rightarrow> l | None \<Rightarrow> 0)"
    "kind (top_model b) = Sequential"
    unfolding eq by (rule f0)+
  show "dropout_percs b =
           (case dp of None \<Rightarrow> [0.25, 0.5] | Some (Percs ps) \<Rightarrow> ps
            | Some (Perc p) \<Rightarrow> replicate (length (xtra_fc b) + 1) p)"
    unfolding eq by (rule f0)
  show "nf b = (case model_features f of Some n \<Rightarrow> n
                 | None \<Rightarrow> num_features env (cut_model env (fst (pretrained_net env f h))
                     (case model_meta f of Some (c, l) \<Rightarrow> c - xcut | None \<Rightarrow> - xcut)) * 2)"
    unfolding eq by (rule f0)
  show "\<exists>pool flat. children (top_model b) =
           cut_model env (fst (pretrained_net env f h))
             (case model_meta f of Some (c, l) \<Rightarrow> c - xcut | None \<Rightarrow> - xcut) @ [pool, flat]
           \<and> kind pool = AdaptiveConcatPool2d \<and> kind flat = Flatten"
    unfolding eq f0(11) by (rule f0)
  have "get_fc_layers b h4 = get_fc_layers b0 h4"
    by (subst b) (rule get_fc_layers_extend)
  with g show "\<exists>h4 h5. get_fc_layers b h4 = Inr (children (fc_model b), h5)" by auto
qed




text \<open>
  Claim C5.  The head of every constructed builder ends in Sigmoid for a multi-label task
  that is not a regression, in LogSoftmax for a single-label classification, and in the last
  Linear layer when \<open>is_reg\<close> holds, with \<open>is_multi\<close> or without it: then no final
  activation occurs anywhere in the head.
\<close>

theorem C5_final_activation:
  assumes "ConvnetBuilder_init env f lls multi reg dp xfc xcut h = Inr (b, h')"
  shows "map kind (filter (\<lambda>l. is_final_actn (kind l)) (children (fc_model b))) =
           (if reg then [] else if multi then [Sigmoid] else [LogSoftmax])
         \<and> kind (last (children (fc_model b))) =
           (if reg then Linear (last (nf b # xtra_fc b)) lls
            else if multi then Sigmoid else LogSoftmax)"
proof -
  note f = ConvnetBuilder_init_fields [OF assms]
  from f(12) obtain h4 h5 where "get_fc_layers b h4 = Inr (children (fc_model b), h5)"
    by blast
  from get_fc_layers_final [OF this] show ?thesis unfolding f(2,3,4) .
qed

text \<open>
  Claim C7.  The backbone is cut at \<open>model_meta[f][0] - xtra_cut\<close> and \<open>lr_cut\<close> is
  \<open>model_meta[f][1]\<close> when \<open>f\<close> is a key of \<open>model_meta\<close>; otherwise the cut is
  \<open>- xtra_cut\<close> and \<open>lr_cut\<close> is 0.  \<open>top_model\<close> is the sequence of the layers
  \<open>cut_model\<close> returned, followed by one AdaptiveConcatPool2d and one Flatten.
\<close>

theorem C7_cut_point:
  assumes "ConvnetBuilder_init env f lls multi reg dp xfc xcut h = Inr (b, h')"
  shows "\<exists>pool flat.
           children (top_model b) =
             cut_model env (fst (pretrained_net env f h))
               (case model_meta f of Some (c, l) \<Rightarrow> c - xcut | None \<Rightarrow> - xcut) @ [pool, flat]
           \<and> kind pool = AdaptiveConcatPool2d \<and> kind flat = Flatten
           \<and> kind (top_model b) = Sequential
           \<and> lr_cut b = (case model_meta f of Some (c, l) \<Rightarrow> l | None \<Rightarrow> 0)"
  using ConvnetBuilder_init_fields(8,10,11) [OF assms] by auto


text \<open>
  Claim C9.  When \<open>summary\<close> returns, \<open>precompute\<close> has the value it had before the call;
  the inherited \<open>summary\<close> ran with the flag set to False.
\<close>

theorem C9_summary_restores_precompute:
  assumes "summary super_summary s = Inr (res, s')"
  shows "precompute s' = precompute s
         \<and> (\<exists>s2. super_summary (s\<lparr>precompute := False\<rparr>) = Inr (res, s2)
                  \<and> s' = s2\<lparr>precompute := precompute s\<rparr>)"
  using assms by (auto simp: summary_def Let_def split: sum.splits)


lemma requires_grad_frame_trans:
  "s1 = s\<lparr>requires_grad := g\<rparr> \<Longrightarrow> s2 = s1\<lparr>requires_grad := g'\<rparr>
     \<Longrightarrow> s2 = s\<lparr>requires_grad := requires_grad s2\<rparr>"
  by simp

lemma fold_set_trainable_frame:
  "fold (\<lambda>l. set_trainable l b) c s = s\<lparr>requires_grad := requires_grad (fold (\<lambda>l. set_trainable l b) c s)\<rparr>"
proof (induction c arbitrary: s)
  case Nil
  show ?case by simp
next
  case (Cons l c)
  let ?s0 = "set_trainable l b s"
  have a: "?s0 = s\<lparr>requires_grad := requires_grad ?s0\<rparr>"
    by (simp add: set_trainable_def)
  have b: "fold (\<lambda>l. set_trainable l b) c ?s0
        = ?s0\<lparr>requires_grad := requires_grad (fold (\<lambda>l. set_trainable l b) c ?s0)\<rparr>"
    by (rule Cons.IH)
  have c: "fold (\<lambda>l. set_trainable l b) (l # c) s = fold (\<lambda>l. set_trainable l b) c ?s0"
    by simp
  show ?case unfolding c by (rule requires_grad_frame_trans [OF a b])
qed

lemma freeze_to_frame: "freeze_to env n s = s\<lparr>requires_grad := requires_grad (freeze_to env n s)\<rparr>"
proof -
  let ?c = "ConvLearner_get_layer_groups env s"
  let ?s1 = "fold (\<lambda>l. set_trainable l False) ?c s"
  have 1: "?s1 = s\<lparr>requires_grad := requires_grad ?s1\<rparr>" by (rule fold_set_trainable_frame)
  have 2: "freeze_to env n s = ?s1\<lparr>requires_grad := requires_grad (freeze_to env n s)\<rparr>"
    unfolding freeze_to_def Let_def by (rule fold_set_trainable_frame)
  show ?thesis by (subst 2, subst 1) simp
qed

lemma freeze_frame:
  "freeze env s = s\<lparr>trace := trace s @ [Ev_freeze], requires_grad := requires_grad (freeze env s)\<rparr>"
  unfolding freeze_def by (subst freeze_to_frame) simp

lemma unfreeze_frame:
  "unfreeze env s = s\<lparr>trace := trace s @ [Ev_unfreeze],
     requires_grad := requires_grad (unfreeze env s), precompute := False\<rparr>"
  unfolding unfreeze_def Let_def by (subst freeze_to_frame) simp

lemma create_fold_frame:
  "fold (\<lambda>n s'. snd (create_empty_bcolz k n s')) names s =
     s\<lparr>disk := disk (fold (\<lambda>n s'. snd (create_empty_bcolz k n s')) names s)\<rparr>"
proof (induction names arbitrary: s)
  case Nil
  show ?case by simp
next
  case (Cons n names)
  have "fold (\<lambda>n s'. snd (create_empty_bcolz k n s')) names (snd (create_empty_bcolz k n s))
        = (snd (create_empty_bcolz k n s))\<lparr>disk :=
             disk (fold (\<lambda>n s'. snd (create_empty_bcolz k n s')) names (snd (create_empty_bcolz k n s)))\<rparr>"
    by (rule Cons.IH)
  then show ?case by (simp add: create_empty_bcolz_def)
qed

lemma activation_names_frame [simp]:
  "activation_names (s\<lparr>trace := t\<rparr>) d = activation_names s d"
  "activation_names (s\<lparr>disk := dk\<rparr>) d = activation_names s d"
  "activation_names (s\<lparr>activations := a\<rparr>) d = activation_names s d"
  "activation_names (s\<lparr>fc_data := fd\<rparr>) d = activation_names s d"
  "activation_names (s\<lparr>requires_grad := g\<rparr>) d = activation_names s d"
  by (simp_all add: activation_names_def)

lemma ConvLearner_data_frame [simp]:
  "ConvLearner_data (s\<lparr>trace := t\<rparr>) = ConvLearner_data s"
  "ConvLearner_data (s\<lparr>disk := dk\<rparr>) = ConvLearner_data s"
  "ConvLearner_data (s\<lparr>activations := a\<rparr>) = ConvLearner_data s"
  "ConvLearner_data (s\<lparr>requires_grad := g\<rparr>) = ConvLearner_data s"
  by (simp_all add: ConvLearner_data_def)

lemma get_activations_Inr:
  assumes "get_activations force s = Inr sa"
  shows "\<exists>d. ConvLearner_data s = Inr d
          \<and> sa = s\<lparr>disk := disk sa, activations := Some (activation_names s d)\<rparr>
          \<and> list_all (\<lambda>p. disk sa p \<noteq> None) (activation_names s d)
          \<and> (if disk s (activation_names s d ! 0) \<noteq> None \<and> \<not> force then disk sa = disk s
             else list_all (\<lambda>p. disk sa p = Some \<lparr>ncols = nf (models s), rows = []\<rparr>)
                    (activation_names s d))"
proof -
  from assms obtain d where d: "ConvLearner_data s = Inr d"
    by (auto simp: get_activations_def split: sum.splits)
  let ?names = "activation_names s d"
  show ?thesis
  proof (cases "disk s (?names ! 0) \<noteq> None \<and> \<not> force")
    case True
    with assms d have "list_all (\<lambda>p. disk s p \<noteq> None) ?names"
      and "sa = s\<lparr>activations := Some ?names\<rparr>"
      by (auto simp: get_activations_def Let_def split: if_splits)
    then have "sa = s\<lparr>disk := disk sa, activations := Some ?names\<rparr>"
      and "list_all (\<lambda>p. disk sa p \<noteq> None) ?names" and "disk sa = disk s"
      by simp_all
    moreover from this(3) True
    have "if disk s (?names ! 0) \<noteq> None \<and> \<not> force then disk sa = disk s
             else list_all (\<lambda>p. disk sa p = Some \<lparr>ncols = nf (models s), rows = []\<rparr>) ?names"
      by simp
    ultimately show ?thesis using d by blast
  next
    case False
    let ?s1 = "fold (\<lambda>n s'. snd (create_empty_bcolz (nf (models s)) n s')) ?names s"
    from assms d False have sa: "sa = ?s1\<lparr>activations := Some ?names\<rparr>"
      by (auto simp: get_activations_def Let_def split: if_splits)
    have fr: "?s1 = s\<lparr>disk := disk ?s1\<rparr>" by (rule create_fold_frame)
    have dsa: "disk sa = disk ?s1" by (simp add: sa)
    have 1: "sa = s\<lparr>disk := disk sa, activations := Some ?names\<rparr>"
      unfolding dsa by (subst sa, subst fr) simp
    have 2: "list_all (\<lambda>p. disk ?s1 p = Some \<lparr>ncols = nf (models s), rows = []\<rparr>) ?names"
      by (simp add: activation_names_def create_empty_bcolz_def Let_def)
    then have 3: "list_all (\<lambda>p. disk ?s1 p \<noteq> None) ?names"
      by (simp add: list_all_iff)
    have e2: "list_all (\<lambda>p. disk sa p = Some \<lparr>ncols = nf (models s), rows = []\<rparr>) ?names"
      using 2 unfolding dsa .
    have e3: "list_all (\<lambda>p. disk sa p \<noteq> None) ?names"
      using 3 unfolding dsa .
    have 4: "if disk s (?names ! 0) \<noteq> None \<and> \<not> force then disk sa = disk s
             else list_all (\<lambda>p. disk sa p = Some \<lparr>ncols = nf (models s), rows = []\<rparr>) ?names"
      unfolding if_not_P [OF False] by (rule e2)
    from d 1 e3 4 show ?thesis by blast
  qed
qed

subsection \<open>The activation cache\<close>

lemma predict_when_fields [simp]:
  "precompute (predict_when c env m dl nm s) = precompute s"
  "data' (predict_when c env m dl nm s) = data' s"
  "models (predict_when c env m dl nm s) = models s"
  "metrics (predict_when c env m dl nm s) = metrics s"
  "crit (predict_when c env m dl nm s) = crit s"
  "tmp_path (predict_when c env m dl nm s) = tmp_path s"
  "requires_grad (predict_when c env m dl nm s) = requires_grad s"
  "activations (predict_when c env m dl nm s) = activations s"
  "fc_data (predict_when c env m dl nm s) = fc_data s"
  by (simp_all add: predict_when_def call_predict_to_bcolz_def split: option.splits)






lemma activation_names_eq:
  "\<exists>pre tmpl. activation_names s d =
     [pre @ ''x_act'' @ tmpl, pre @ ''x_act_val'' @ tmpl, pre @ ''x_act_test'' @ tmpl]"
proof -
  let ?tmpl = "''_'' @ name (models s) @ ''_'' @ str_nat (sz d) @ ''.bc''"
  let ?pre = "if tmp_path s = [] \<or> last (tmp_path s) = CHR ''/'' then tmp_path s
              else tmp_path s @ ''/''"
  have "activation_names s d =
     [?pre @ ''x_act'' @ ?tmpl, ?pre @ ''x_act_val'' @ ?tmpl, ?pre @ ''x_act_test'' @ ?tmpl]"
    by (simp add: activation_names_def os_path_join_def Let_def)
  then show ?thesis by blast
qed

lemma activation_names_distinct:
  "\<exists>n0 n1 n2. activation_names s d = [n0, n1, n2] \<and> n0 \<noteq> n1 \<and> n0 \<noteq> n2 \<and> n1 \<noteq> n2"
proof -
  from activation_names_eq [of s d] obtain pre tmpl where
    e: "activation_names s d =
     [pre @ ''x_act'' @ tmpl, pre @ ''x_act_val'' @ tmpl, pre @ ''x_act_test'' @ tmpl]"
    by blast
  have "length (pre @ ''x_act'' @ tmpl) \<noteq> length (pre @ ''x_act_val'' @ tmpl)"
    "length (pre @ ''x_act'' @ tmpl) \<noteq> length (pre @ ''x_act_test'' @ tmpl)"
    "length (pre @ ''x_act_val'' @ tmpl) \<noteq> length (pre @ ''x_act_test'' @ tmpl)"
    by simp_all
  then have "pre @ ''x_act'' @ tmpl \<noteq> pre @ ''x_act_val'' @ tmpl"
    "pre @ ''x_act'' @ tmpl \<noteq> pre @ ''x_act_test'' @ tmpl"
    "pre @ ''x_act_val'' @ tmpl \<noteq> pre @ ''x_act_test'' @ tmpl"
    by fastforce+
  with e show ?thesis by blast
qed

lemma save_fc1_Inr:
  assumes "save_fc1 env s = Inr s'"
  obtains sa d n0 n1 n2 s1 s2 s3 where
    "get_activations False (s\<lparr>trace := trace s @ [Ev_save_fc1]\<rparr>) = Inr sa"
    "ConvLearner_data s = Inr d" "activation_names s d = [n0, n1, n2]"
    "n0 \<noteq> n1" "n0 \<noteq> n2" "n1 \<noteq> n2"
    "s1 = predict_when (carray_len sa n0 \<noteq> length (train_ds d)) env
                (top_model (models s)) (fix_dl d) n0 sa"
    "s2 = predict_when (carray_len s1 n1 \<noteq> length (val_ds d)) env
                (top_model (models s)) (val_dl d) n1 s1"
    "s3 = predict_when (truthy_dl (test_dl d) \<and> carray_len s2 n2 \<noteq> length (test_ds d)) env
                (top_model (models s)) (case test_dl d of Some t \<Rightarrow> t | None \<Rightarrow> []) n2 s2"
    "s' = s3\<lparr>fc_data := fc_data s'\<rparr>"
    "fc_data s' = Some (from_arrays env (disk s3) (path d)
                          (n0, train_y d) (n1, val_y d) (bs d) (classes d)
                          (if truthy_dl (test_dl d) then Some n2 else None))"
proof -
  let ?s0 = "s\<lparr>trace := trace s @ [Ev_save_fc1]\<rparr>"
  from assms obtain sa where ga: "get_activations False ?s0 = Inr sa"
    by (auto simp: save_fc1_def split: sum.splits)
  from get_activations_Inr [OF ga] obtain d where
    d: "ConvLearner_data s = Inr d"
    and sa: "sa = ?s0\<lparr>disk := disk sa, activations := Some (activation_names s d)\<rparr>"
    by auto
  from activation_names_distinct [of s d] obtain n0 n1 n2 where
    n: "activation_names s d = [n0, n1, n2]" and ne: "n0 \<noteq> n1" "n0 \<noteq> n2" "n1 \<noteq> n2"
    by blast
  have a: "activations sa = Some [n0, n1, n2]" by (subst sa) (simp add: n)
  have dd: "ConvLearner_data sa = Inr d" by (subst sa) (simp add: d)
  have m: "models sa = models s" by (subst sa) simp
  define s1 where "s1 = predict_when (carray_len sa n0 \<noteq> length (train_ds d)) env
                (top_model (models s)) (fix_dl d) n0 sa"
  define s2 where "s2 = predict_when (carray_len s1 n1 \<noteq> length (val_ds d)) env
                (top_model (models s)) (val_dl d) n1 s1"
  define s3 where "s3 = predict_when (truthy_dl (test_dl d) \<and> carray_len s2 n2 \<noteq> length (test_ds d)) env
                (top_model (models s)) (case test_dl d of Some t \<Rightarrow> t | None \<Rightarrow> []) n2 s2"
  define fd where "fd = from_arrays env (disk s3) (path d)
                          (n0, train_y d) (n1, val_y d) (bs d) (classes d)
                          (if truthy_dl (test_dl d) then Some n2 else None)"
  have "save_fc1 env s = Inr (s3\<lparr>fc_data := Some fd\<rparr>)"
    unfolding save_fc1_def ga
    by (simp add: a dd m Let_def s1_def s2_def s3_def fd_def predict_when_def truthy_dl_def
        split: option.splits)
  with assms have e: "s' = s3\<lparr>fc_data := Some fd\<rparr>" by simp
  have e1: "fc_data s' = Some fd" by (simp add: e)
  have e2: "s' = s3\<lparr>fc_data := fc_data s'\<rparr>" unfolding e1 by (rule e)
  show ?thesis
    by (rule that [OF ga d n ne s1_def s2_def s3_def e2 e1 [unfolded fd_def]])
qed



lemma get_activations_fields:
  assumes "get_activations force s = Inr sa"
  shows "precompute sa = precompute s" "data' sa = data' s" "models sa = models s"
    "metrics sa = metrics s" "crit sa = crit s" "tmp_path sa = tmp_path s"
    "requires_grad sa = requires_grad s" "trace sa = trace s" "fc_data sa = fc_data s"
proof -
  from get_activations_Inr [OF assms] obtain d where
    sa: "sa = s\<lparr>disk := disk sa, activations := Some (activation_names s d)\<rparr>"
    by auto
  show "precompute sa = precompute s" by (subst sa) simp
  show "data' sa = data' s" by (subst sa) simp
  show "models sa = models s" by (subst sa) simp
  show "metrics sa = metrics s" by (subst sa) simp
  show "crit sa = crit s" by (subst sa) simp
  show "tmp_path sa = tmp_path s" by (subst sa) simp
  show "requires_grad sa = requires_grad s" by (subst sa) simp
  show "trace sa = trace s" by (subst sa) simp
  show "fc_data sa = fc_data s" by (subst sa) simp
qed

lemma save_fc1_fields:
  assumes "save_fc1 env s = Inr s'"
  shows "precompute s' = precompute s" "data' s' = data' s" "models s' = models s"
    "metrics s' = metrics s" "crit s' = crit s" "tmp_path s' = tmp_path s"
    "requires_grad s' = requires_grad s"
proof -
  obtain sa d n0 n1 n2 s1 s2 s3 where
    ga: "get_activations False (s\<lparr>trace := trace s @ [Ev_save_fc1]\<rparr>) = Inr sa"
    and d: "ConvLearner_data s = Inr d" and n: "activation_names s d = [n0, n1, n2]"
    and ne: "n0 \<noteq> n1" "n0 \<noteq> n2" "n1 \<noteq> n2"
    and s1: "s1 = predict_when (carray_len sa n0 \<noteq> length (train_ds d)) env
                (top_model (models s)) (fix_dl d) n0 sa"
    and s2: "s2 = predict_when (carray_len s1 n1 \<noteq> length (val_ds d)) env
                (top_model (models s)) (val_dl d) n1 s1"
    and s3: "s3 = predict_when (truthy_dl (test_dl d) \<and> carray_len s2 n2 \<noteq> length (test_ds d)) env
                (top_model (models s)) (case test_dl d of Some t \<Rightarrow> t | None \<Rightarrow> []) n2 s2"
    and s': "s' = s3\<lparr>fc_data := fc_data s'\<rparr>"
    and fd: "fc_data s' = Some (from_arrays env (disk s3) (path d)
                          (n0, train_y d) (n1, val_y d) (bs d) (classes d)
                          (if truthy_dl (test_dl d) then Some n2 else None))"
    by (rule save_fc1_Inr [OF assms])
  note f = get_activations_fields [OF ga]
  show "precompute s' = precompute s" apply (subst s') unfolding s3 s2 s1 using f(1) by simp
  show "data' s' = data' s" apply (subst s') unfolding s3 s2 s1 using f(2) by simp
  show "models s' = models s" apply (subst s') unfolding s3 s2 s1 using f(3) by simp
  show "metrics s' = metrics s" apply (subst s') unfolding s3 s2 s1 using f(4) by simp
  show "crit s' = crit s" apply (subst s') unfolding s3 s2 s1 using f(5) by simp
  show "tmp_path s' = tmp_path s" apply (subst s') unfolding s3 s2 s1 using f(6) by simp
  show "requires_grad s' = requires_grad s" apply (subst s') unfolding s3 s2 s1 using f(7) by simp
qed





subsection \<open>Construction\<close>

lemma freeze_fields:
  "precompute (freeze env s) = precompute s" "data' (freeze env s) = data' s"
  "models (freeze env s) = models s" "metrics (freeze env s) = metrics s"
  "crit (freeze env s) = crit s" "fc_data (freeze env s) = fc_data s"
  "disk (freeze env s) = disk s" "trace (freeze env s) = trace s @ [Ev_freeze]"
  by (subst freeze_frame, simp)+

lemma ConvLearner_init_Inr:
  assumes "ConvLearner_init env d m pc kw w = Inr s"
  obtains sB sC where
    "crit sB = Some (if is_reg d then l1_loss
                     else if is_multi d then binary_cross_entropy else nll_loss)"
    "metrics sB = (if is_reg d then kw_metrics kw
                   else case kw_metrics kw of
                          None \<Rightarrow> Some (if is_multi d then [accuracy_thresh 0.5] else [accuracy])
                        | Some ms \<Rightarrow> Some ms)"
    "trace sB = trace w" "\<not> precompute sB"
    "if pc then save_fc1 env sB = Inr sC else sC = sB"
    "s = (freeze env sC)\<lparr>precompute := pc\<rparr>"
proof -
  define sA where "sA = (Learner_init d m kw False w)
    \<lparr>crit := Some (if is_multi d then binary_cross_entropy else nll_loss)\<rparr>"
  define sB where "sB = (if is_reg d then sA\<lparr>crit := Some l1_loss\<rparr>
     else if metrics sA = None
     then sA\<lparr>metrics := Some (if is_multi d then [accuracy_thresh 0.5] else [accuracy])\<rparr>
     else sA)"
  have dA: "ConvLearner_data sA = Inr d"
    by (simp add: sA_def ConvLearner_data_def Learner_init_def)
  have unf: "ConvLearner_init env d m pc kw w =
     (case (if pc then save_fc1 env sB else Inr sB) of
        Inl e \<Rightarrow> Inl e
      | Inr sC \<Rightarrow> Inr ((freeze env sC)\<lparr>precompute := pc\<rparr>))"
    unfolding ConvLearner_init_def Let_def sA_def [symmetric] dA
    by (simp add: sB_def)
  from assms obtain sC where c: "(if pc then save_fc1 env sB else Inr sB) = Inr sC"
    and s: "s = (freeze env sC)\<lparr>precompute := pc\<rparr>"
    unfolding unf by (auto split: sum.splits)
  have 1: "crit sB = Some (if is_reg d then l1_loss
                     else if is_multi d then binary_cross_entropy else nll_loss)"
    by (simp add: sB_def sA_def)
  have 2: "metrics sB = (if is_reg d then kw_metrics kw
                   else case kw_metrics kw of
                          None \<Rightarrow> Some (if is_multi d then [accuracy_thresh 0.5] else [accuracy])
                        | Some ms \<Rightarrow> Some ms)"
    by (simp add: sB_def sA_def Learner_init_def split: option.splits)
  have 3: "trace sB = trace w" by (simp add: sB_def sA_def Learner_init_def)
  have 4: "\<not> precompute sB" by (simp add: sB_def sA_def Learner_init_def)
  have 5: "if pc then save_fc1 env sB = Inr sC else sC = sB"
    using c by (simp split: if_splits)
  show ?thesis by (rule that [OF 1 2 3 4 5 s])
qed

text \<open>
  Claim C6.  The loss is \<open>l1_loss\<close> for a regression (also a multi-label one),
  \<open>binary_cross_entropy\<close> for a multi-label task that is not a regression and \<open>nll_loss\<close>
  otherwise; when no metrics were passed and the task is not a regression, the metrics are
  \<open>[accuracy_thresh(0.5)]\<close> for a multi-label task and \<open>[accuracy]\<close> otherwise; metrics
  that were passed, and the missing metrics of a regression, stay as they are.
\<close>

theorem C6_loss_and_metrics:
  assumes "ConvLearner_init env d m pc kw w = Inr s"
  shows "crit s = Some (if is_reg d then l1_loss
                        else if is_multi d then binary_cross_entropy else nll_loss)
         \<and> metrics s = (if is_reg d then kw_metrics kw
                        else case kw_metrics kw of
                               None \<Rightarrow> Some (if is_multi d then [accuracy_thresh 0.5]
                                             else [accuracy])
                             | Some ms \<Rightarrow> Some ms)"
proof -
  obtain sB sC where
    c: "crit sB = Some (if is_reg d then l1_loss
                     else if is_multi d then binary_cross_entropy else nll_loss)"
    and m: "metrics sB = (if is_reg d then kw_metrics kw
                   else case kw_metrics kw of
                          None \<Rightarrow> Some (if is_multi d then [accuracy_thresh 0.5] else [accuracy])
                        | Some ms \<Rightarrow> Some ms)"
    and t: "trace sB = trace w" and np: "\<not> precompute sB"
    and sv: "if pc then save_fc1 env sB = Inr sC else sC = sB"
    and s: "s = (freeze env sC)\<lparr>precompute := pc\<rparr>"
    by (rule ConvLearner_init_Inr [OF assms])
  have "crit sC = crit sB \<and> metrics sC = metrics sB"
    using sv save_fc1_fields(4,5) [of env sB sC] by (auto split: if_splits)
  then have "crit s = crit sB" "metrics s = metrics sB"
    by (simp_all add: s freeze_fields)
  with c m show ?thesis by simp
qed



subsection \<open>Freezing and unfreezing\<close>

lemma fold_set_trainable_requires_grad:
  "requires_grad (fold (\<lambda>l. set_trainable l b) c s) i =
     (if i \<in> set (concat (map group_oids c)) then b else requires_grad s i)"
proof (induction c arbitrary: s)
  case Nil
  show ?case by simp
next
  case (Cons l c)
  have "requires_grad (fold (\<lambda>l. set_trainable l b) (l # c) s) i =
          requires_grad (fold (\<lambda>l. set_trainable l b) c (set_trainable l b s)) i"
    by simp
  also have "\<dots> = (if i \<in> set (concat (map group_oids c)) then b
                     else requires_grad (set_trainable l b s) i)"
    by (rule Cons.IH)
  also have "\<dots> = (if i \<in> set (concat (map group_oids (l # c))) then b else requires_grad s i)"
    by (simp add: set_trainable_def)
  finally show ?case .
qed

lemma freeze_to_requires_grad:
  "requires_grad (freeze_to env n s) i =
     (if i \<in> set (concat (map group_oids (py_slice_from n (ConvLearner_get_layer_groups env s))))
      then True
      else if i \<in> set (concat (map group_oids (ConvLearner_get_layer_groups env s)))
      then False else requires_grad s i)"
  unfolding freeze_to_def Let_def fold_set_trainable_requires_grad by simp

lemma get_layer_groups_trace [simp]:
  "ConvLearner_get_layer_groups env (s\<lparr>trace := t\<rparr>) = ConvLearner_get_layer_groups env s"
  by (simp add: ConvLearner_get_layer_groups_def)

text \<open>
  What \<open>unfreeze\<close> does: on a learner that is not in precompute mode every module of every
  layer group is trainable afterwards; on one that is, only the head is touched, and a
  backbone module keeps the flag it had.
\<close>

lemma unfreeze_not_precompute:
  assumes "\<not> precompute s"
  shows "list_all (group_trainable (unfreeze env s))
           (ConvLearner_get_layer_groups env (unfreeze env s))"
proof -
  let ?c = "ConvLearner_get_layer_groups env s"
  have g: "ConvLearner_get_layer_groups env (unfreeze env s) = ?c"
    using assms by (subst unfreeze_frame) (simp add: ConvLearner_get_layer_groups_def)
  have r: "requires_grad (unfreeze env s) i" if "i \<in> set (concat (map group_oids ?c))" for i
    using that
    by (simp add: unfreeze_def Let_def freeze_to_requires_grad py_slice_from_def)
  show ?thesis
    unfolding g list_all_iff group_trainable_def using r by auto
qed

lemma unfreeze_precompute:
  assumes "precompute s" and "i \<notin> set (oids (fc_model (models s)))"
  shows "requires_grad (unfreeze env s) i = requires_grad s i"
  using assms
  by (simp add: unfreeze_def Let_def freeze_to_requires_grad ConvLearner_get_layer_groups_def
      get_layer_groups_def py_slice_from_def)

text \<open>
  What \<open>freeze\<close> does: the last layer group is trainable afterwards, and a module of
  another group that is not also in the last one is frozen.
\<close>

lemma get_layer_groups_nonempty: "ConvLearner_get_layer_groups env s \<noteq> []"
  by (simp add: ConvLearner_get_layer_groups_def get_layer_groups_def Let_def)

lemma py_slice_from_last: "c \<noteq> [] \<Longrightarrow> py_slice_from (- 1) c = [last c]"
  by (cases c rule: rev_cases) (simp_all add: py_slice_from_def)

lemma freeze_requires_grad:
  "requires_grad (freeze env s) i =
     (if i \<in> set (group_oids (last (ConvLearner_get_layer_groups env s))) then True
      else if i \<in> set (concat (map group_oids (ConvLearner_get_layer_groups env s)))
      then False else requires_grad s i)"
  by (simp add: freeze_def freeze_to_requires_grad
      py_slice_from_last [OF get_layer_groups_nonempty])

section \<open>The small instance, evaluated\<close>

lemmas builder_eval = ConvnetBuilder_init_def ConvnetBuilder_init0_def get_fc_layers_def
  create_fc_layer_def new_module_def ex_benv_def ex_net_def ex_cut_model_def model_meta_def
  model_features_def py_slice_def ConvnetBuilder0.extend_def Let_def

lemmas learner_eval = ConvLearner_init_def Learner_init_def ex_env_def ex_data_def
  ex_kwargs_def ex_world_def ex_predict_def ex_from_arrays_def ex_models_def py_slice_def
  py_slice_from_def save_fc1_def get_activations_def activation_names_def name_def
  str_int_def digit_char_def os_path_join_def create_empty_bcolz_def carray_len_def
  call_predict_to_bcolz_def truthy_dl_def ConvLearner_data_def freeze_def freeze_to_def
  ConvLearner_get_layer_groups_def get_layer_groups_def set_trainable_def Let_def

lemma ex_builder:
  "ConvnetBuilder_init ex_benv resnet34 2 False False None None 0 0 = Inr (ex_models, 24)"
  by (simp add: builder_eval ex_models_def)

lemma ex_learner:
  "\<exists>s. ConvLearner_init ex_env ex_data ex_models True ex_kwargs ex_world = Inr s
       \<and> precompute s \<and> models s = ex_models"
  by (simp add: learner_eval)



text \<open>
  Claim C4.  \<open>unfreeze\<close> is to make all layers trainable and leave precompute mode.  On
  the learner of the instance, constructed with \<open>precompute=True\<close>, it leaves precompute
  mode, but \<open>freeze_to(0)\<close> runs while the flag is still set and sees the head as the only
  layer group: of the three layer groups the learner has afterwards, the two of the backbone
  are still frozen.
\<close>

theorem C4_unfreeze_in_precompute_mode:
  "map_sum id precompute
     (ConvLearner_init ex_env ex_data ex_models True ex_kwargs ex_world) = Inr True
   \<and> map_sum id (precompute \<circ> unfreeze ex_env)
     (ConvLearner_init ex_env ex_data ex_models True ex_kwargs ex_world) = Inr False
   \<and> map_sum id (trainable_groups ex_env \<circ> unfreeze ex_env)
     (ConvLearner_init ex_env ex_data ex_models True ex_kwargs ex_world)
       = Inr [False, False, True]"
  by (simp add: learner_eval unfreeze_def trainable_groups_def group_trainable_def)


text \<open>The head of the instance, a single-label classifier, ends in LogSoftmax.\<close>

theorem C5_witness:
  "ConvnetBuilder_init ex_benv resnet34 2 False False None None 0 0 = Inr (ex_models, 24)
   \<and> kind (last (children (fc_model ex_models))) = LogSoftmax
   \<and> map kind (filter (\<lambda>l. is_final_actn (kind l)) (children (fc_model ex_models)))
       = [LogSoftmax]"
  using C5_final_activation [OF ex_builder] ex_builder by simp

text \<open>For \<open>resnet34\<close> the cut is 8 and \<open>lr_cut\<close> is 6.\<close>

theorem C7_witness:
  "ConvnetBuilder_init ex_benv resnet34 2 False False None None 0 0 = Inr (ex_models, 24)
   \<and> (\<exists>pool flat. children (top_model ex_models) =
          ex_cut_model (fst (ex_net resnet34 0)) 8 @ [pool, flat]
        \<and> kind pool = AdaptiveConcatPool2d \<and> kind flat = Flatten)
   \<and> lr_cut ex_models = 6"
proof -
  have "\<exists>pool flat. children (top_model ex_models) =
          ex_cut_model (fst (ex_net resnet34 0)) 8 @ [pool, flat]
        \<and> kind pool = AdaptiveConcatPool2d \<and> kind flat = Flatten
        \<and> kind (top_model ex_models) = Sequential \<and> lr_cut ex_models = 6"
    using C7_cut_point [OF ex_builder] by (simp add: model_meta_def ex_benv_def)
  with ex_builder show ?thesis by blast
qed

text \<open>\<open>summary\<close> on the learner of the instance summarises the full model and leaves the flag set.\<close>

theorem C9_witness:
  "case ConvLearner_init ex_env ex_data ex_models True ex_kwargs ex_world of
     Inl e \<Rightarrow> False
   | Inr s \<Rightarrow> precompute s
       \<and> (\<exists>s'. summary (\<lambda>s. Inr (ConvLearner_model s, s)) s = Inr (model ex_models, s')
                \<and> precompute s')"
proof -
  from ex_learner obtain s where
    i: "ConvLearner_init ex_env ex_data ex_models True ex_kwargs ex_world = Inr s"
    and p: "precompute s" and m: "models s = ex_models" by blast
  have r: "summary (\<lambda>s. Inr (ConvLearner_model s, s)) s =
             Inr (model ex_models, s\<lparr>precompute := False, precompute := precompute s\<rparr>)"
    by (simp add: summary_def ConvLearner_model_def m)
  from C9_summary_restores_precompute [OF r] have
    "precompute (s\<lparr>precompute := False, precompute := precompute s\<rparr>) = precompute s"
    by blast
  with r i p show ?thesis by simp
qed

text \<open>Loss and metrics of the instance, a single-label classification without metrics.\<close>

theorem C6_witness:
  "case ConvLearner_init ex_env ex_data ex_models True ex_kwargs ex_world of
     Inl e \<Rightarrow> False
   | Inr s \<Rightarrow> crit s = Some nll_loss \<and> metrics s = Some [accuracy]"
proof -
  from ex_learner obtain s where
    i: "ConvLearner_init ex_env ex_data ex_models True ex_kwargs ex_world = Inr s" by blast
  from C6_loss_and_metrics [OF i] i show ?thesis
    by (simp add: ex_data_def ex_kwargs_def)
qed



end
